theory Spec2Isabelle
  imports Main "HOL-Library.Word"
begin

section \<open>The script \<open>create_test_wav.py\<close>\<close>

text \<open>
  The script is thirty lines of Python: three imports, one function made of two
  \<^verbatim>\<open>print\<close> calls, and the \<^verbatim>\<open>__main__\<close> guard that calls it. Everything a Python
  program of this shape could touch is made explicit in a record: the command line, the
  process environment, the text written to standard output, the file system, the
  subprocesses launched, and the module's global namespace.
\<close>

datatype pyval = PyNone | PyStr string | PyModule string | PyFunction string

record world =
  argv :: "string list"
  environ :: "string \<rightharpoonup> string"
  stdout :: string
  files :: "string \<rightharpoonup> string"
  spawned :: "string list list"
  globals :: "string \<rightharpoonup> pyval"

text \<open>
  \<^verbatim>\<open>print(s)\<close> with one positional argument writes \<open>s\<close> and a newline to standard
  output and returns \<^verbatim>\<open>None\<close>.
\<close>

definition py_print :: "string \<Rightarrow> world \<Rightarrow> world" where
  "py_print s w = w\<lparr>stdout := stdout w @ s @ ''\<newline>''\<rparr>"

text \<open>The triple-quoted literal of lines 16 to 27, with its leading and trailing blanks.\<close>

definition instructions :: string where
  \<open>instructions =
     ''\<newline>'' @
     ''    To create test WAV files:\<newline>'' @
     ''    \<newline>'' @
     ''    1. Open demo.html in your browser at http://localhost:8000/demo.html\<newline>'' @
     ''    2. Enter test text in the "Text to Audio" panel\<newline>'' @
     ''    3. Click "Encode to Audio"\<newline>'' @
     ''    4. Click "Download WAV"\<newline>'' @
     ''    5. Use the downloaded file to test decoding\<newline>'' @
     ''    \<newline>'' @
     ''    Or, to create via CLI (requires CLI tool):\<newline>'' @
     ''    cargo run --bin testaudio -- encode "Test message" output.wav\<newline>'' @
     ''    ''\<close>

text \<open>
  \<^verbatim>\<open>def create_test_wav()\<close>: the docstring and the comment do nothing; the body is the
  two prints, and falling off the end returns \<^verbatim>\<open>None\<close>.
\<close>

definition create_test_wav :: "world \<Rightarrow> pyval \<times> world" where
  "create_test_wav w =
     (PyNone, py_print instructions (py_print ''Creating test WAV file...'' w))"

text \<open>The module docstring of lines 2 to 5.\<close>

definition module_doc :: string where
  "module_doc =
     ''\<newline>'' @
     ''Create a test WAV file by encoding a message using the Rust core library.\<newline>'' @
     ''This script demonstrates how to create test audio files.\<newline>''"

text \<open>
  The module body, run with \<^verbatim>\<open>__name__\<close> bound to \<open>name\<close>: the docstring is stored
  in \<^verbatim>\<open>__doc__\<close>, each \<^verbatim>\<open>import\<close> binds the module's name in the namespace,
  \<^verbatim>\<open>def\<close> binds the function, and the guard calls the function when the file is run
  as a script. Loading the three standard-library modules is the interpreter's work and
  is not modelled: an import is the binding of the name to the module object. The
  script never uses the three names.
\<close>

definition py_store :: "string \<Rightarrow> pyval \<Rightarrow> world \<Rightarrow> world" where
  "py_store x v w = w\<lparr>globals := (globals w)(x \<mapsto> v)\<rparr>"

definition py_import :: "string \<Rightarrow> world \<Rightarrow> world" where
  "py_import m w = py_store m (PyModule m) w"

definition py_def :: "string \<Rightarrow> world \<Rightarrow> world" where
  "py_def f w = py_store f (PyFunction f) w"

definition module_body :: "string \<Rightarrow> world \<Rightarrow> world" where
  "module_body name w =
     (let w0 = py_store ''__doc__'' (PyStr module_doc) w;
          w1 = py_import ''subprocess'' w0;
          w2 = py_import ''struct'' w1;
          w3 = py_import ''sys'' w2;
          w4 = py_def ''create_test_wav'' w3
      in if name = ''__main__'' then snd (create_test_wav w4) else w4)"

text \<open>The text a run has added to standard output, given the world before and after.\<close>

definition written :: "world \<Rightarrow> world \<Rightarrow> string" where
  "written w w' = drop (length (stdout w)) (stdout w')"


text \<open>A text as the lines it is made of, each ended by a newline.\<close>

definition unlines :: "string list \<Rightarrow> string" where
  "unlines ls = concat (map (\<lambda>l. l @ ''\<newline>'') ls)"


section \<open>The frame format of the modem core\<close>

text \<open>
  The script only points at the modem core (\<^verbatim>\<open>cargo run --bin testaudio\<close>); the core's
  code is not among the sources. Its framer, deframer and container reader are
  modelled here from the specification's contracts (sections 3, 4.1, 4.4, 6 and 7).
  What the specification leaves open is a field of the configuration record that
  section 9 asks for: the preamble pattern, the width of the Length field, and the
  checksum function with its width.
\<close>

type_synonym byte = "8 word"

text \<open>The error taxonomy of section 7.\<close>

datatype error =
    PayloadTooLarge | AmplitudeOutOfRange
  | InvalidContainer | UnsupportedFormat | TruncatedContainer
  | NotFound | AmbiguousSymbol | Truncated | ChecksumMismatch

record config =
  preamble :: "bool list"
  length_bits :: nat
  checksum_bits :: nat
  checksum :: "bool list \<Rightarrow> nat"

text \<open>
  A fixed-width unsigned integer as bits, most significant first, and its reading. The
  specification fixes neither bit nor byte order; the frame is modelled as the bit
  stream that is fed to the line encoder, with every field written most significant
  bit first.
\<close>

fun encode_uint :: "nat \<Rightarrow> nat \<Rightarrow> bool list" where
  "encode_uint 0 n = []"
| "encode_uint (Suc k) n = odd (n div 2 ^ k) # encode_uint k n"

fun decode_uint :: "bool list \<Rightarrow> nat" where
  "decode_uint [] = 0"
| "decode_uint (b # bs) = (if b then 2 ^ length bs else 0) + decode_uint bs"

definition bits_of_bytes :: "byte list \<Rightarrow> bool list" where
  "bits_of_bytes P = concat (map (\<lambda>b. encode_uint 8 (unat b)) P)"

fun bytes_of_bits :: "bool list \<Rightarrow> byte list" where
  "bytes_of_bits (b7 # b6 # b5 # b4 # b3 # b2 # b1 # b0 # bs) =
     word_of_nat (decode_uint [b7, b6, b5, b4, b3, b2, b1, b0]) # bytes_of_bits bs"
| "bytes_of_bits bs = []"

text \<open>
  Modelled from the spec: the framer \<open>frame(payload) -> frame\<close> of section 4.1,
  whose code is missing. The payload length must fit the Length field's numeric range
  (at most \<open>2 ^ width - 1\<close>), else \<open>PayloadTooLarge\<close>; the frame is Preamble, Length,
  Payload, Checksum, the checksum computed over Length followed by Payload
  (sections 3 and 6).
\<close>

definition frame :: "config \<Rightarrow> byte list \<Rightarrow> error + bool list" where
  "frame cfg P =
     (if length P \<le> 2 ^ length_bits cfg - 1 then
        let body = encode_uint (length_bits cfg) (length P) @ bits_of_bytes P
        in Inr (preamble cfg @ body
                  @ encode_uint (checksum_bits cfg) (checksum cfg body))
      else Inl PayloadTooLarge)"

text \<open>
  Modelled from the spec: the deframer \<open>deframe(bits) -> payload | DecodeError\<close> of
  section 4.1, whose code is missing. The preamble sits at offset 0 (the caller aligned
  the buffer) and is passed over; then Length is read, exactly Length payload bytes,
  then the Checksum, which is compared with the checksum recomputed over Length
  followed by Payload. \<open>Truncated\<close> when fewer bits are there than Length implies (or
  than the Length field needs), \<open>ChecksumMismatch\<close> when the comparison fails.
\<close>

definition deframe :: "config \<Rightarrow> bool list \<Rightarrow> error + byte list" where
  "deframe cfg bits =
     (let after_preamble = drop (length (preamble cfg)) bits in
      if length after_preamble < length_bits cfg then Inl Truncated
      else
        let len_field = take (length_bits cfg) after_preamble;
            n = decode_uint len_field;
            rest = drop (length_bits cfg) after_preamble
        in if length rest < 8 * n + checksum_bits cfg then Inl Truncated
           else
             let payload_bits = take (8 * n) rest;
                 stored = take (checksum_bits cfg) (drop (8 * n) rest)
             in if encode_uint (checksum_bits cfg) (checksum cfg (len_field @ payload_bits))
                     = stored
                then Inr (bytes_of_bits payload_bits)
                else Inl ChecksumMismatch)"

text \<open>One bit of a bit stream inverted, the others held fixed.\<close>

definition flip_bit :: "nat \<Rightarrow> bool list \<Rightarrow> bool list" where
  "flip_bit i bs = bs[i := \<not> bs ! i]"

text \<open>
  One admissible configuration, for evaluating the model on concrete frames: the
  sixteen-bit Length field the specification gives as its example, an eight-bit
  alternating preamble, and as checksum the number of one bits, kept in eight bits.
\<close>

definition popcount :: "bool list \<Rightarrow> nat" where
  "popcount bs = length (filter (\<lambda>b. b) bs)"

definition example_config :: config where
  "example_config =
     \<lparr>preamble = [True, False, True, False, True, False, True, False],
      length_bits = 16, checksum_bits = 8, checksum = popcount\<rparr>"


section \<open>The WAV container reader of the modem core\<close>

text \<open>
  The layout of section 6: a 44-byte RIFF/WAVE header, little-endian, then the sample
  bytes. Fields are read at their offsets.
\<close>

fun le_uint :: "byte list \<Rightarrow> nat" where
  "le_uint [] = 0"
| "le_uint (b # bs) = unat b + 256 * le_uint bs"

definition field :: "nat \<Rightarrow> nat \<Rightarrow> byte list \<Rightarrow> byte list" where
  "field off n buf = take n (drop off buf)"

definition channel_count :: "byte list \<Rightarrow> nat" where
  "channel_count buf = le_uint (field 22 2 buf)"

definition sample_rate_field :: "byte list \<Rightarrow> nat" where
  "sample_rate_field buf = le_uint (field 24 4 buf)"

definition bits_per_sample_field :: "byte list \<Rightarrow> nat" where
  "bits_per_sample_field buf = le_uint (field 34 2 buf)"

definition data_size :: "byte list \<Rightarrow> nat" where
  "data_size buf = le_uint (field 40 4 buf)"

text \<open>The four magic markers: \<open>RIFF\<close>, \<open>WAVE\<close>, \<open>fmt \<close> and \<open>data\<close>.\<close>

definition magic_ok :: "byte list \<Rightarrow> bool" where
  "magic_ok buf \<longleftrightarrow>
     field 0 4 buf = [0x52, 0x49, 0x46, 0x46]
     \<and> field 8 4 buf = [0x57, 0x41, 0x56, 0x45]
     \<and> field 12 4 buf = [0x66, 0x6D, 0x74, 0x20]
     \<and> field 36 4 buf = [0x64, 0x61, 0x74, 0x61]"

text \<open>Signed little-endian samples of \<open>k\<close> bytes each, in two's complement.\<close>

definition sample_of :: "byte list \<Rightarrow> int" where
  "sample_of bs =
     (let u = le_uint bs; m = 2 ^ (8 * length bs)
      in if 2 * u < m then int u else int u - int m)"

fun samples_of :: "nat \<Rightarrow> byte list \<Rightarrow> int list" where
  "samples_of k bs =
     (if k = 0 \<or> length bs < k then []
      else sample_of (take k bs) # samples_of k (drop k bs))"

record wav =
  channels :: nat
  sample_rate :: nat
  bits_per_sample :: nat
  samples :: "int list"

text \<open>
  Modelled from the spec: the container reader of section 4.4, whose code is missing.
  It checks the header and extracts the format parameters and the samples, failing with
  \<open>InvalidContainer\<close> on a magic mismatch, with \<open>UnsupportedFormat\<close> on an unsupported
  channel count or bit depth, and with \<open>TruncatedContainer\<close> when the declared data
  length exceeds the bytes available after the 44-byte header. The three checks run in
  the order the specification lists them. Which channel counts and bit depths are
  supported is the parameter \<open>supported\<close>. The specification also asks that the derived
  fields be consistent, but names no error for a mismatch: no failure is modelled for
  it.
\<close>

definition read_wav :: "(nat \<Rightarrow> nat \<Rightarrow> bool) \<Rightarrow> byte list \<Rightarrow> error + wav" where
  "read_wav supported buf =
     (if \<not> magic_ok buf then Inl InvalidContainer
      else if \<not> supported (channel_count buf) (bits_per_sample_field buf)
        then Inl UnsupportedFormat
      else if length buf < 44 + data_size buf then Inl TruncatedContainer
      else Inr \<lparr>channels = channel_count buf,
                sample_rate = sample_rate_field buf,
                bits_per_sample = bits_per_sample_field buf,
                samples = samples_of (bits_per_sample_field buf div 8)
                            (field 44 (data_size buf) buf)\<rparr>)"

text \<open>The format of the specification's concrete scenario: mono, sixteen bits.\<close>

definition mono16 :: "nat \<Rightarrow> nat \<Rightarrow> bool" where
  "mono16 ch bits \<longleftrightarrow> ch = 1 \<and> bits = 16"

text \<open>
  A complete file (mono, 44100 Hz, sixteen bits, four data bytes) and three files with
  one fault each: the first marker byte overwritten, the declared data length raised
  to eight, and the file cut two bytes into its data.
\<close>

definition wav_header :: "byte list" where
  "wav_header =
     [0x52, 0x49, 0x46, 0x46,  0x28, 0x00, 0x00, 0x00,  0x57, 0x41, 0x56, 0x45,
      0x66, 0x6D, 0x74, 0x20,  0x10, 0x00, 0x00, 0x00,  0x01, 0x00,  0x01, 0x00,
      0x44, 0xAC, 0x00, 0x00,  0x88, 0x58, 0x01, 0x00,  0x02, 0x00,  0x10, 0x00,
      0x64, 0x61, 0x74, 0x61,  0x04, 0x00, 0x00, 0x00]"

definition complete_wav :: "byte list" where
  "complete_wav = wav_header @ [0x01, 0x00, 0xFF, 0xFF]"

definition bad_magic_wav :: "byte list" where
  "bad_magic_wav = complete_wav[0 := 0x58]"

definition oversized_wav :: "byte list" where
  "oversized_wav = complete_wav[40 := 0x08]"

definition short_wav :: "byte list" where
  "short_wav = wav_header @ [0x01, 0x00]"


section \<open>What the script does\<close>

lemma stdout_create_test_wav:
  "stdout (snd (create_test_wav w)) =
     stdout w @ ''Creating test WAV file...'' @ ''\<newline>'' @ instructions @ ''\<newline>''"
  by (simp add: create_test_wav_def py_print_def)

lemma written_create_test_wav:
  "written w (snd (create_test_wav w)) =
     ''Creating test WAV file...'' @ ''\<newline>'' @ instructions @ ''\<newline>''"
  by (simp add: written_def stdout_create_test_wav)

lemma stdout_module_body_main:
  "stdout (module_body ''__main__'' w) =
     stdout w @ ''Creating test WAV file...'' @ ''\<newline>'' @ instructions @ ''\<newline>''"
  by (simp add: module_body_def Let_def stdout_create_test_wav py_import_def py_def_def
      py_store_def)

text \<open>
  C1. Calling \<open>create_test_wav\<close> returns \<^verbatim>\<open>None\<close> and leaves the world as it was but for
  thirteen fixed lines added to standard output: the announcement, then the
  instructions for making a WAV file with the browser demo or the external command-line
  tool. The result is the argument with a constant appended: nothing is encoded,
  decoded or computed.
\<close>

theorem create_test_wav_prints_fixed_text:
  \<open>create_test_wav w =
     (PyNone, w\<lparr>stdout := stdout w @ unlines
        [''Creating test WAV file...'',
         '''',
         ''    To create test WAV files:'',
         ''    '',
         ''    1. Open demo.html in your browser at http://localhost:8000/demo.html'',
         ''    2. Enter test text in the "Text to Audio" panel'',
         ''    3. Click "Encode to Audio"'',
         ''    4. Click "Download WAV"'',
         ''    5. Use the downloaded file to test decoding'',
         ''    '',
         ''    Or, to create via CLI (requires CLI tool):'',
         ''    cargo run --bin testaudio -- encode "Test message" output.wav'',
         ''    '']\<rparr>)\<close>
  by (simp add: create_test_wav_def py_print_def instructions_def unlines_def)

text \<open>
  C9. \<open>create_test_wav\<close> is deterministic: whatever two worlds it is called in (any
  command line, any environment, any earlier output), it returns \<^verbatim>\<open>None\<close> and writes
  the same text, and so do two runs of the file as a script.
\<close>

theorem create_test_wav_deterministic:
  "fst (create_test_wav w1) = PyNone
   \<and> fst (create_test_wav w2) = PyNone
   \<and> written w1 (snd (create_test_wav w1)) = written w2 (snd (create_test_wav w2))
   \<and> written w1 (module_body ''__main__'' w1) = written w2 (module_body ''__main__'' w2)"
proof -
  have ret: "fst (create_test_wav w) = PyNone" for w
    by (simp add: create_test_wav_def)
  have call: "written w1 (snd (create_test_wav w1)) = written w2 (snd (create_test_wav w2))"
    by (simp only: written_create_test_wav)
  have script: "written w (module_body ''__main__'' w) =
      ''Creating test WAV file...'' @ ''\<newline>'' @ instructions @ ''\<newline>''" for w
    unfolding written_def stdout_module_body_main by simp
  from ret call script show ?thesis
    by simp
qed




section \<open>Fixed-width fields and bit flips\<close>

lemma length_encode_uint [simp]: "length (encode_uint k n) = k"
  by (induction k) simp_all

lemma decode_encode_uint_mod: "decode_uint (encode_uint k n) = n mod 2 ^ k"
proof (induction k)
  case 0
  show ?case by simp
next
  case (Suc k)
  have "n mod (2 ^ k * 2) = 2 ^ k * (n div 2 ^ k mod 2) + n mod 2 ^ k"
    by (rule mod_mult2_eq)
  with Suc show ?case
    by (simp add: odd_iff_mod_2_eq_one mult.commute)
qed

lemma decode_encode_uint: "n < 2 ^ k \<Longrightarrow> decode_uint (encode_uint k n) = n"
  by (simp add: decode_encode_uint_mod)

lemma decode_uint_less: "decode_uint bs < 2 ^ length bs"
  by (induction bs) auto

lemma length_bits_of_bytes [simp]: "length (bits_of_bytes P) = 8 * length P"
  by (induction P) (simp_all add: bits_of_bytes_def)

lemma length_bytes_of_bits: "length (bytes_of_bits bs) = length bs div 8"
  by (induction bs rule: bytes_of_bits.induct) simp_all

lemma flip_bit_append:
  "flip_bit i (xs @ ys) =
     (if i < length xs then flip_bit i xs @ ys else xs @ flip_bit (i - length xs) ys)"
  by (simp add: flip_bit_def list_update_append nth_append)

lemma length_flip_bit [simp]: "length (flip_bit i bs) = length bs"
  by (simp add: flip_bit_def)

lemma decode_uint_set:
  "i < length bs \<Longrightarrow> \<not> bs ! i \<Longrightarrow>
     decode_uint (bs[i := True]) = decode_uint bs + 2 ^ (length bs - Suc i)"
proof (induction bs arbitrary: i)
  case Nil
  then show ?case by simp
next
  case (Cons b bs)
  then show ?case by (cases i) auto
qed

lemma decode_uint_flip_up:
  "i < length bs \<Longrightarrow> \<not> bs ! i \<Longrightarrow> decode_uint bs < decode_uint (flip_bit i bs)"
  by (simp add: flip_bit_def decode_uint_set)

lemma flip_bit_append_right: "flip_bit (length a + j) (a @ b) = a @ flip_bit j b"
  by (simp add: flip_bit_append)

lemma flip_bit_append_left: "j < length a \<Longrightarrow> flip_bit j (a @ b) = flip_bit j a @ b"
  by (simp add: flip_bit_append)

lemma frame_Inr:
  assumes "frame cfg P = Inr f"
  shows "length P < 2 ^ length_bits cfg"
    and "f = preamble cfg @ encode_uint (length_bits cfg) (length P) @ bits_of_bytes P
              @ encode_uint (checksum_bits cfg)
                  (checksum cfg (encode_uint (length_bits cfg) (length P) @ bits_of_bytes P))"
proof -
  from assms have le: "length P \<le> 2 ^ length_bits cfg - 1"
    by (simp add: frame_def split: if_splits)
  have "(0::nat) < 2 ^ length_bits cfg" by simp
  with le show "length P < 2 ^ length_bits cfg" by linarith
  from assms le show "f = preamble cfg @ encode_uint (length_bits cfg) (length P) @ bits_of_bytes P
              @ encode_uint (checksum_bits cfg)
                  (checksum cfg (encode_uint (length_bits cfg) (length P) @ bits_of_bytes P))"
    by (simp add: frame_def Let_def)
qed

lemma deframe_parts:
  assumes "length pre = length (preamble cfg)" and "length L = length_bits cfg"
  shows "deframe cfg (pre @ L @ R) =
     (if length R < 8 * decode_uint L + checksum_bits cfg then Inl Truncated
      else if encode_uint (checksum_bits cfg) (checksum cfg (L @ take (8 * decode_uint L) R))
                = take (checksum_bits cfg) (drop (8 * decode_uint L) R)
           then Inr (bytes_of_bits (take (8 * decode_uint L) R))
           else Inl ChecksumMismatch)"
  using assms by (simp add: deframe_def Let_def)

text \<open>
  Inverting a zero bit of the Length field of a well-formed frame raises the declared
  length above the payload that follows, and the deframer stops at \<open>Truncated\<close>, for
  every configuration and so whatever the checksum is.
\<close>

lemma deframe_length_flip_up:
  assumes fr: "frame cfg P = Inr f"
    and lo: "length (preamble cfg) \<le> i"
    and hi: "i < length (preamble cfg) + length_bits cfg"
    and bit: "\<not> f ! i"
  shows "deframe cfg (flip_bit i f) = Inl Truncated"
proof -
  define L where "L = encode_uint (length_bits cfg) (length P)"
  define B where "B = bits_of_bytes P"
  define K where "K = encode_uint (checksum_bits cfg) (checksum cfg (L @ B))"
  define j where "j = i - length (preamble cfg)"
  have f: "f = preamble cfg @ L @ B @ K"
    using frame_Inr(2) [OF fr] by (simp add: L_def B_def K_def)
  have n: "decode_uint L = length P"
    using frame_Inr(1) [OF fr] by (simp add: L_def decode_encode_uint)
  have lenL: "length L = length_bits cfg" by (simp add: L_def)
  have j: "j < length L" using lo hi by (simp add: j_def lenL)
  have i: "i = length (preamble cfg) + j"
    using lo by (simp add: j_def)
  have flip: "flip_bit i f = preamble cfg @ flip_bit j L @ B @ K"
    unfolding f i by (simp only: flip_bit_append_right flip_bit_append_left [OF j])
  have "f ! i = L ! j"
    unfolding f i using j by (simp add: nth_append)
  with bit have "\<not> L ! j" by simp
  from decode_uint_flip_up [OF j this] have "length P < decode_uint (flip_bit j L)"
    by (simp add: n)
  then have short: "length (B @ K) < 8 * decode_uint (flip_bit j L) + checksum_bits cfg"
    by (simp add: B_def K_def)
  show ?thesis
    unfolding flip
    by (subst deframe_parts) (use short in \<open>simp_all add: lenL\<close>)
qed

lemma encode_uint_numeral:
  "encode_uint (numeral k) n = odd (n div 2 ^ pred_numeral k) # encode_uint (pred_numeral k) n"
  by (simp add: numeral_eq_Suc)

lemma encode_uint_1: "encode_uint 1 n = [odd n]"
  by (simp add: One_nat_def del: One_nat_def [symmetric])

lemma encode_uint_8:
  "encode_uint 8 n =
     [odd (n div 128), odd (n div 64), odd (n div 32), odd (n div 16),
      odd (n div 8), odd (n div 4), odd (n div 2), odd n]"
  by (simp add: encode_uint_numeral encode_uint_1)

lemma bytes_of_bits_append:
  "bytes_of_bits (encode_uint 8 n @ bs) = word_of_nat (decode_uint (encode_uint 8 n)) # bytes_of_bits bs"
  by (simp only: encode_uint_8 append_Cons append_Nil bytes_of_bits.simps(1))

lemma bytes_of_bits_of_bytes: "bytes_of_bits (bits_of_bytes P) = P"
proof (induction P)
  case Nil
  show ?case by (simp add: bits_of_bytes_def)
next
  case (Cons b P)
  have "unat b < 2 ^ 8" using unsigned_less [of b] by simp
  then have "decode_uint (encode_uint 8 (unat b)) = unat b"
    by (rule decode_encode_uint)
  with Cons show ?case
    using bytes_of_bits_append [of "unat b" "bits_of_bytes P"]
    by (simp add: bits_of_bytes_def)
qed

text \<open>The framing layer alone round-trips: the deframer returns what was framed.\<close>

lemma deframe_frame:
  assumes fr: "frame cfg P = Inr f"
  shows "deframe cfg f = Inr P"
proof -
  define L where "L = encode_uint (length_bits cfg) (length P)"
  define B where "B = bits_of_bytes P"
  define K where "K = encode_uint (checksum_bits cfg) (checksum cfg (L @ B))"
  have f: "f = preamble cfg @ L @ B @ K"
    using frame_Inr(2) [OF fr] by (simp add: L_def B_def K_def)
  have n: "decode_uint L = length P"
    using frame_Inr(1) [OF fr] by (simp add: L_def decode_encode_uint)
  have lenL: "length L = length_bits cfg" by (simp add: L_def)
  have lenB: "length B = 8 * length P" by (simp add: B_def)
  have lenK: "length K = checksum_bits cfg" by (simp add: K_def)
  show ?thesis
    unfolding f
    by (subst deframe_parts) (simp_all add: lenL n lenB lenK K_def [symmetric], simp add: B_def bytes_of_bits_of_bytes)
qed

lemma example_config_fields:
  "length (preamble example_config) = 8" "length_bits example_config = 16"
  "checksum_bits example_config = 8"
  by (simp_all add: example_config_def)


section \<open>What the framer and the deframer do\<close>

text \<open>
  C4. \<open>frame\<close> succeeds for a payload whose length is exactly the largest value the
  Length field can hold, and the field of the frame it returns reads back as that
  length; it fails with \<open>PayloadTooLarge\<close> for a payload one byte longer, and for
  every payload whose length is beyond the field's range.
\<close>

theorem frame_length_boundary:
  "(length P = 2 ^ length_bits cfg - 1 \<longrightarrow>
      (\<exists>f. frame cfg P = Inr f
         \<and> decode_uint (take (length_bits cfg) (drop (length (preamble cfg)) f)) = length P))
   \<and> (length P = 2 ^ length_bits cfg \<longrightarrow> frame cfg P = Inl PayloadTooLarge)
   \<and> (2 ^ length_bits cfg - 1 < length P \<longrightarrow> frame cfg P = Inl PayloadTooLarge)"
proof (intro conjI impI)
  assume len: "length P = 2 ^ length_bits cfg - 1"
  then have "length P < 2 ^ length_bits cfg"
    by simp
  then have "decode_uint (encode_uint (length_bits cfg) (length P)) = length P"
    by (rule decode_encode_uint)
  with len show "\<exists>f. frame cfg P = Inr f
      \<and> decode_uint (take (length_bits cfg) (drop (length (preamble cfg)) f)) = length P"
    by (simp add: frame_def Let_def)
next
  assume len: "length P = 2 ^ length_bits cfg"
  have "(0::nat) < 2 ^ length_bits cfg"
    by simp
  then have "\<not> (2::nat) ^ length_bits cfg \<le> 2 ^ length_bits cfg - 1"
    by linarith
  with len show "frame cfg P = Inl PayloadTooLarge"
    by (simp add: frame_def)
next
  assume "2 ^ length_bits cfg - 1 < length P"
  then show "frame cfg P = Inl PayloadTooLarge"
    by (simp add: frame_def)
qed

theorem frame_length_boundary_witness:
  "(\<exists>f. frame example_config (replicate 65535 0) = Inr f
       \<and> decode_uint (take 16 (drop 8 f)) = 65535)
   \<and> frame example_config (replicate 65536 0) = Inl PayloadTooLarge"
  using frame_length_boundary [of "replicate 65535 0" example_config]
    frame_length_boundary [of "replicate 65536 0" example_config]
  by (simp add: example_config_fields)


section \<open>What the container reader does\<close>

lemma list_update_Cons_numeral:
  "(x # xs)[numeral k := y] = x # xs[pred_numeral k := y]"
  by (simp add: numeral_eq_Suc)

lemma read_complete_wav:
  "read_wav mono16 complete_wav =
     Inr \<lparr>channels = 1, sample_rate = 44100, bits_per_sample = 16, samples = [1, - 1]\<rparr>"
  by (simp add: read_wav_def complete_wav_def wav_header_def magic_ok_def field_def
      data_size_def channel_count_def bits_per_sample_field_def sample_rate_field_def
      mono16_def sample_of_def Let_def)

lemma bad_magic_wav_facts:
  "\<not> magic_ok bad_magic_wav"
  by (simp add: bad_magic_wav_def complete_wav_def wav_header_def magic_ok_def field_def)

lemma oversized_wav_facts:
  "magic_ok oversized_wav" "data_size oversized_wav = 8" "length oversized_wav = 48"
  "channel_count oversized_wav = 1" "bits_per_sample_field oversized_wav = 16"
  by (simp_all add: oversized_wav_def complete_wav_def wav_header_def magic_ok_def field_def
      data_size_def channel_count_def bits_per_sample_field_def list_update_Cons_numeral)

lemma short_wav_facts:
  "magic_ok short_wav" "data_size short_wav = 4" "length short_wav = 46"
  "channel_count short_wav = 1" "bits_per_sample_field short_wav = 16"
  by (simp_all add: short_wav_def wav_header_def magic_ok_def field_def
      data_size_def channel_count_def bits_per_sample_field_def)

text \<open>
  C6. The reader fails with \<open>InvalidContainer\<close> on every buffer whose magic markers
  are corrupted. It fails with \<open>TruncatedContainer\<close> on every container (markers
  intact, format supported) whose declared data length exceeds the bytes available
  after the header. In either case, corrupted markers or a declared data length beyond
  the bytes available, it returns no samples, whatever else the buffer holds.
\<close>

theorem read_wav_container_validation:
  "(\<not> magic_ok buf \<longrightarrow> read_wav supported buf = Inl InvalidContainer)
   \<and> (magic_ok buf \<longrightarrow> supported (channel_count buf) (bits_per_sample_field buf) \<longrightarrow>
        length buf < 44 + data_size buf \<longrightarrow>
        read_wav supported buf = Inl TruncatedContainer)
   \<and> (\<not> magic_ok buf \<or> length buf < 44 + data_size buf \<longrightarrow>
        (\<forall>w. read_wav supported buf \<noteq> Inr w))"
  by (simp add: read_wav_def)

theorem read_wav_container_validation_witness:
  "\<not> magic_ok bad_magic_wav
   \<and> read_wav mono16 bad_magic_wav = Inl InvalidContainer
   \<and> (\<forall>w. read_wav mono16 bad_magic_wav \<noteq> Inr w)
   \<and> magic_ok oversized_wav
   \<and> mono16 (channel_count oversized_wav) (bits_per_sample_field oversized_wav)
   \<and> length oversized_wav < 44 + data_size oversized_wav
   \<and> read_wav mono16 oversized_wav = Inl TruncatedContainer
   \<and> (\<forall>w. read_wav mono16 oversized_wav \<noteq> Inr w)
   \<and> magic_ok short_wav
   \<and> mono16 (channel_count short_wav) (bits_per_sample_field short_wav)
   \<and> length short_wav < 44 + data_size short_wav
   \<and> read_wav mono16 short_wav = Inl TruncatedContainer"
  using read_wav_container_validation [of bad_magic_wav mono16]
    read_wav_container_validation [of oversized_wav mono16]
    read_wav_container_validation [of short_wav mono16]
  by (simp add: bad_magic_wav_facts oversized_wav_facts short_wav_facts mono16_def)

end
